theory Spec2Isabelle
  imports Main "HOL-Library.Word"
begin

unbundle bit_operations_syntax

section \<open>Static types (go/types)\<close>

text \<open>
  The lowering in \<^verbatim>\<open>compiler/map.go\<close> inspects Go types through the standard library's
  \<^verbatim>\<open>go/types\<close> package. A \<^verbatim>\<open>types.Type\<close> is one of a closed set of shapes; the kinds of
  \<^verbatim>\<open>*types.Basic\<close> and their \<^verbatim>\<open>Info()\<close> flags are the library's table \<^verbatim>\<open>types.Typ\<close>.
\<close>

datatype BasicKind =
    KInvalid
  | KBool
  | KInt | KInt8 | KInt16 | KInt32 | KInt64
  | KUint | KUint8 | KUint16 | KUint32 | KUint64 | KUintptr
  | KFloat32 | KFloat64
  | KComplex64 | KComplex128
  | KString
  | KUnsafePointer
  | KUntypedBool | KUntypedInt | KUntypedRune | KUntypedFloat | KUntypedComplex
  | KUntypedString | KUntypedNil

text \<open>\<^verbatim>\<open>type BasicInfo int\<close>, with the flags \<^verbatim>\<open>1 << iota\<close>.\<close>

type_synonym BasicInfo = int

definition IsBoolean :: BasicInfo where "IsBoolean = 1"
definition IsInteger :: BasicInfo where "IsInteger = 2"
definition IsUnsigned :: BasicInfo where "IsUnsigned = 4"
definition IsFloat :: BasicInfo where "IsFloat = 8"
definition IsComplex :: BasicInfo where "IsComplex = 16"
definition IsString :: BasicInfo where "IsString = 32"
definition IsUntyped :: BasicInfo where "IsUntyped = 64"

fun Info :: "BasicKind \<Rightarrow> BasicInfo" where
  "Info KInvalid = 0"
| "Info KBool = IsBoolean"
| "Info KInt = IsInteger"
| "Info KInt8 = IsInteger"
| "Info KInt16 = IsInteger"
| "Info KInt32 = IsInteger"
| "Info KInt64 = IsInteger"
| "Info KUint = IsInteger OR IsUnsigned"
| "Info KUint8 = IsInteger OR IsUnsigned"
| "Info KUint16 = IsInteger OR IsUnsigned"
| "Info KUint32 = IsInteger OR IsUnsigned"
| "Info KUint64 = IsInteger OR IsUnsigned"
| "Info KUintptr = IsInteger OR IsUnsigned"
| "Info KFloat32 = IsFloat"
| "Info KFloat64 = IsFloat"
| "Info KComplex64 = IsComplex"
| "Info KComplex128 = IsComplex"
| "Info KString = IsString"
| "Info KUnsafePointer = 0"
| "Info KUntypedBool = IsBoolean OR IsUntyped"
| "Info KUntypedInt = IsInteger OR IsUntyped"
| "Info KUntypedRune = IsInteger OR IsUntyped"
| "Info KUntypedFloat = IsFloat OR IsUntyped"
| "Info KUntypedComplex = IsComplex OR IsUntyped"
| "Info KUntypedString = IsString OR IsUntyped"
| "Info KUntypedNil = IsUntyped"

text \<open>
  The type shapes. A struct is its list of fields (name and type), an array its length and
  element type, a named type its name and underlying type. The classifier never looks below
  a pointer, slice, map, channel, function or interface type, so what those carry does not
  matter to it; by-value recursion (a struct or array containing itself) is rejected by the
  Go type checker, which is why a finite tree is an adequate picture of every type the
  lowering can receive.
\<close>

datatype gotype =
    Basic BasicKind
  | Pointer gotype
  | Struct "(string \<times> gotype) list"
  | Array nat gotype
  | Named string gotype
  | Slice gotype
  | MapType gotype gotype
  | Signature "gotype list" "gotype list"
  | Interface "string list"
  | Chan gotype
  | Tuple "gotype list"

text \<open>
  \<^verbatim>\<open>Type.Underlying()\<close>: a named type answers with its underlying type, every other type
  with itself.
\<close>

fun Underlying :: "gotype \<Rightarrow> gotype" where
  "Underlying (Named n u) = u"
| "Underlying t = t"

text \<open>
  go/types resolves the underlying type of a named type completely: it is never itself a
  named type. \<open>isNamed\<close> recognises the types that cannot be an underlying type.
\<close>

fun isNamed :: "gotype \<Rightarrow> bool" where
  "isNamed (Named n u) = True"
| "isNamed t = False"

section \<open>The binary-key test\<close>

text \<open>
  \<^verbatim>\<open>hashmapIsBinaryKey\<close> (map.go, lines 144-165). The \<^verbatim>\<open>for\<close> loop over the fields of a
  struct is \<open>structFields\<close>: it returns \<open>False\<close> at the first field whose underlying type
  is not a binary key, and \<open>True\<close> when it has run through all of them.
\<close>

function hashmapIsBinaryKey :: "gotype \<Rightarrow> bool"
  and structFields :: "(string \<times> gotype) list \<Rightarrow> bool" where
  "hashmapIsBinaryKey (Basic k) = (Info k AND (IsBoolean OR IsInteger) \<noteq> 0)"
| "hashmapIsBinaryKey (Pointer t) = True"
| "hashmapIsBinaryKey (Struct fs) = structFields fs"
| "hashmapIsBinaryKey (Array n t) = hashmapIsBinaryKey t"
| "hashmapIsBinaryKey (Named n u) = hashmapIsBinaryKey (Underlying (Named n u))"
| "hashmapIsBinaryKey (Slice t) = False"
| "hashmapIsBinaryKey (MapType k v) = False"
| "hashmapIsBinaryKey (Signature ps rs) = False"
| "hashmapIsBinaryKey (Interface ms) = False"
| "hashmapIsBinaryKey (Chan t) = False"
| "hashmapIsBinaryKey (Tuple ts) = False"
| "structFields [] = True"
| "structFields (f # fs) =
     (if \<not> hashmapIsBinaryKey (Underlying (snd f)) then False else structFields fs)"
  by pat_completeness auto
termination
proof (relation "measure (\<lambda>x. case x of Inl t \<Rightarrow> size t | Inr fs \<Rightarrow> size_list (size_prod (\<lambda>_. 0) size) fs)")
  show "wf (measure (\<lambda>x. case x of Inl t \<Rightarrow> size t | Inr fs \<Rightarrow> size_list (size_prod (\<lambda>_. 0) size) fs))"
    by simp
next
  fix f :: "string \<times> gotype" and fs :: "(string \<times> gotype) list"
  have "size (Underlying (snd f)) \<le> size (snd f)"
    by (cases "snd f") simp_all
  moreover have "size (snd f) \<le> size_prod (\<lambda>_. 0) size f"
    by (cases f) simp
  ultimately show "(Inl (Underlying (snd f)), Inr (f # fs))
      \<in> measure (\<lambda>x. case x of Inl t \<Rightarrow> size t | Inr fs \<Rightarrow> size_list (size_prod (\<lambda>_. 0) size) fs)"
    by simp
qed simp_all

section \<open>Hash functions\<close>

type_synonym uint8 = "8 word"
type_synonym uint32 = "32 word"

text \<open>
  \<^verbatim>\<open>hashmapHash\<close> (map.go, lines 123-130). \<open>hashLoop\<close> is the \<^verbatim>\<open>range\<close> loop, with
  \<^verbatim>\<open>result\<close> as its accumulator; \<^verbatim>\<open>uint32\<close> arithmetic wraps around.
\<close>

fun hashLoop :: "uint32 \<Rightarrow> uint8 list \<Rightarrow> uint32" where
  "hashLoop result [] = result"
| "hashLoop result (c # cs) = hashLoop ((result XOR ucast c) * 16777619) cs"

definition hashmapHash :: "uint8 list \<Rightarrow> uint32" where
  "hashmapHash data = hashLoop 2166136261 data"

text \<open>\<^verbatim>\<open>hashmapTopHash\<close> (map.go, lines 133-140).\<close>

definition hashmapTopHash :: "uint32 \<Rightarrow> uint8" where
  "hashmapTopHash hash =
     (let tophash = (ucast (drop_bit 24 hash) :: uint8)
      in if tophash < 1 then tophash + 1 else tophash)"

section \<open>LLVM values and the instruction builder\<close>

text \<open>
  The lowering produces LLVM IR through an instruction builder. The model keeps what the
  properties below read off that IR: the type of every value, and the instructions in the order in
  which the builder received them. \<open>Reg n t\<close> is the result of the \<open>n\<close>-th instruction of
  the function under construction, \<open>Param n t\<close> a value that was there before (an operand
  handed to the lowering). The zero \<^verbatim>\<open>llvm.Value{}\<close> is no value at all: where the source
  returns an \<^verbatim>\<open>llvm.Value\<close> the model returns an \<open>llvm_value option\<close>, and \<open>None\<close> is
  \<^verbatim>\<open>llvm.Value{}\<close>. The operands \<^verbatim>\<open>m\<close>, \<^verbatim>\<open>key\<close> and \<^verbatim>\<open>value\<close> are values proper.
\<close>

datatype llvm_type =
    IntType nat
  | PointerType llvm_type
  | StructType "llvm_type list"
  | ArrayType nat llvm_type
  | NamedType string
  | VoidType

datatype llvm_value =
    ConstInt llvm_type nat
  | Undef llvm_type
  | Param nat llvm_type
  | Reg nat llvm_type

fun TypeOf :: "llvm_value \<Rightarrow> llvm_type" where
  "TypeOf (ConstInt t n) = t"
| "TypeOf (Undef t) = t"
| "TypeOf (Param n t) = t"
| "TypeOf (Reg n t) = t"

text \<open>
  The instructions map.go emits, with their operands in the order of the builder calls:
  \<open>Store v p\<close> stores \<open>v\<close> through the pointer \<open>p\<close>; \<open>LifetimeStart size ptr\<close> and
  \<open>LifetimeEnd ptr size\<close> mark the lifetime of a stack slot; \<open>RuntimeCall fn args name\<close>
  calls the runtime function \<open>fn\<close>; \<open>Convert\<close> is any integer conversion.
\<close>

datatype instr =
    Alloca llvm_type string
  | BitCast llvm_value llvm_type string
  | LifetimeStart llvm_value llvm_value
  | LifetimeEnd llvm_value llvm_value
  | Store llvm_value llvm_value
  | Load llvm_value string
  | InsertValue llvm_value llvm_value nat string
  | RuntimeCall string "llvm_value list" string
  | Convert string llvm_value llvm_type

type_synonym Pos = int

text \<open>
  The one diagnostic of this file: its text is the fixed sentence "only strings, bools,
  ints, pointers or structs of bools/ints are supported as map keys, but got: " followed by
  \<^verbatim>\<open>keyType.String()\<close>; \<open>UnsupportedMapKey t\<close> stands for that text with the type \<open>t\<close>.
  \<open>Message\<close> is any other text (an error of the conversion helper).
\<close>

datatype message = UnsupportedMapKey gotype | Message string

datatype error = Error Pos message

text \<open>
  The part of \<^verbatim>\<open>Compiler\<close> that map.go reads and writes: the target's \<^verbatim>\<open>uintptr\<close> type,
  the mapping from Go types to LLVM types, the allocation size of an LLVM type
  (\<^verbatim>\<open>c.targetData.TypeAllocSize\<close>), the builder's output so far, and the diagnostics
  recorded so far.
\<close>

record Compiler =
  uintptrType :: llvm_type
  getLLVMType :: "gotype \<Rightarrow> llvm_type"
  TypeAllocSize :: "llvm_type \<Rightarrow> nat"
  builder :: "instr list"
  diagnostics :: "error list"

text \<open>Handing one instruction to the builder; its result is the next register.\<close>

definition emit :: "instr \<Rightarrow> llvm_type \<Rightarrow> Compiler \<Rightarrow> llvm_value \<times> Compiler" where
  "emit i t c = (Reg (length (builder c)) t, c\<lparr>builder := builder c @ [i]\<rparr>)"

fun elementType :: "llvm_type \<Rightarrow> llvm_type" where
  "elementType (PointerType t) = t"
| "elementType t = VoidType"

definition CreateStore :: "llvm_value \<Rightarrow> llvm_value \<Rightarrow> Compiler \<Rightarrow> Compiler" where
  "CreateStore v p c = snd (emit (Store v p) VoidType c)"

definition CreateLoad :: "llvm_value \<Rightarrow> string \<Rightarrow> Compiler \<Rightarrow> llvm_value \<times> Compiler" where
  "CreateLoad p name c = emit (Load p name) (elementType (TypeOf p)) c"

definition CreateInsertValue ::
  "llvm_value \<Rightarrow> llvm_value \<Rightarrow> nat \<Rightarrow> string \<Rightarrow> Compiler \<Rightarrow> llvm_value \<times> Compiler" where
  "CreateInsertValue agg v i name c = emit (InsertValue agg v i name) (TypeOf agg) c"

subsection \<open>Helpers of the compiler that map.go calls\<close>

definition i8ptrType :: llvm_type where
  "i8ptrType = PointerType (IntType 8)"

text \<open>
  Modelled from the spec: \<^verbatim>\<open>createTemporaryAlloca\<close> is not among the sources. The spec
  (4.3) gives its contract as \<open>stage(value) \<rightarrow> (bufferHandle, addressableBufferPtr,
  byteSize)\<close>: a stack-scoped region sized exactly to the value's type, not initialised,
  whose lifetime begins at staging. The model allocates the slot, takes its address as a
  byte pointer, and marks the start of its lifetime.
\<close>

definition createTemporaryAlloca ::
  "llvm_type \<Rightarrow> string \<Rightarrow> Compiler \<Rightarrow> (llvm_value \<times> llvm_value \<times> llvm_value) \<times> Compiler" where
  "createTemporaryAlloca t name c =
     (let (alloca, c1) = emit (Alloca t name) (PointerType t) c;
          (bitcast, c2) = emit (BitCast alloca i8ptrType (name @ ''.bitcast'')) i8ptrType c1;
          sz = ConstInt (IntType 64) (TypeAllocSize c t);
          (u, c3) = emit (LifetimeStart sz bitcast) VoidType c2
      in ((alloca, bitcast, sz), c3))"

text \<open>
  Modelled from the spec: \<^verbatim>\<open>emitLifetimeEnd\<close> is not among the sources. The spec (3, 4.3)
  describes the release of a staged operand as ending its lifetime, after which the slot
  may be reused.
\<close>

definition emitLifetimeEnd :: "llvm_value \<Rightarrow> llvm_value \<Rightarrow> Compiler \<Rightarrow> Compiler" where
  "emitLifetimeEnd ptr sz c = snd (emit (LifetimeEnd ptr sz) VoidType c)"

text \<open>
  Modelled from the spec: \<^verbatim>\<open>createRuntimeCall\<close> and the runtime's signatures are not among
  the sources. The spec (6) fixes the contract: create returns the map handle, the two get
  entry points return the found flag (a boolean), the set and delete entry points return
  nothing.
\<close>

definition hashmapType :: llvm_type where
  "hashmapType = PointerType (NamedType ''runtime.hashmap'')"

definition runtimeResultType :: "string \<Rightarrow> llvm_type" where
  "runtimeResultType fn =
     (if fn = ''hashmapMake'' then hashmapType
      else if fn = ''hashmapStringGet'' \<or> fn = ''hashmapBinaryGet'' then IntType 1
      else VoidType)"

definition createRuntimeCall ::
  "string \<Rightarrow> llvm_value list \<Rightarrow> string \<Rightarrow> Compiler \<Rightarrow> llvm_value \<times> Compiler" where
  "createRuntimeCall fn args name c = emit (RuntimeCall fn args name) (runtimeResultType fn) c"

text \<open>
  Modelled from the spec: \<^verbatim>\<open>makeError\<close> and \<^verbatim>\<open>addError\<close> are not among the sources. The
  spec (7) has one error kind carrying the source position and the description of the
  offending type; \<^verbatim>\<open>makeError\<close> builds it, \<^verbatim>\<open>addError\<close> reports it through the
  compilation's diagnostic channel and lets code generation go on.
\<close>

definition makeError :: "Pos \<Rightarrow> message \<Rightarrow> error" where
  "makeError pos msg = Error pos msg"

definition addError :: "Pos \<Rightarrow> message \<Rightarrow> Compiler \<Rightarrow> Compiler" where
  "addError pos msg c = c\<lparr>diagnostics := diagnostics c @ [makeError pos msg]\<rparr>"

section \<open>The four lowering procedures\<close>

text \<open>
  An \<^verbatim>\<open>ssa.Value\<close> as far as \<^verbatim>\<open>emitMakeMap\<close> looks at it (its name and its type), and the
  \<^verbatim>\<open>ssa.MakeMap\<close> instruction: its type, the optional size hint \<^verbatim>\<open>Reserve\<close> (\<open>None\<close> is
  \<^verbatim>\<open>nil\<close>) and its position.
\<close>

record ssa_Value =
  vName :: string
  vType :: gotype

record MakeMap =
  mmType :: gotype
  Reserve :: "ssa_Value option"
  mmPos :: Pos

text \<open>A Go call either panics or returns.\<close>

datatype 'a go_result = Panics | Returns 'a

text \<open>
  \<^verbatim>\<open>emitMakeMap\<close> (map.go, lines 15-34). Two helpers it calls are not among the sources and
  are parameters: \<^verbatim>\<open>getValue\<close>, which finds the LLVM value of an SSA value in the frame,
  and \<^verbatim>\<open>parseConvert\<close>, which emits a conversion and returns either an error or the
  converted value. The type assertion \<^verbatim>\<open>.(*types.Map)\<close> panics on a type that is not a
  map.
\<close>

definition emitMakeMap ::
  "('frame \<Rightarrow> ssa_Value \<Rightarrow> llvm_value) \<Rightarrow>
   (gotype \<Rightarrow> gotype \<Rightarrow> llvm_value \<Rightarrow> Pos \<Rightarrow> Compiler \<Rightarrow> (error + llvm_value) \<times> Compiler) \<Rightarrow>
   Compiler \<Rightarrow> 'frame \<Rightarrow> MakeMap \<Rightarrow>
   (llvm_value option \<times> error option) go_result \<times> Compiler" where
  "emitMakeMap getValue parseConvert c frame expr =
     (case Underlying (mmType expr) of
        MapType keyT elemT \<Rightarrow>
          (let llvmKeyType = getLLVMType c (Underlying keyT);
               llvmValueType = getLLVMType c (Underlying elemT);
               keySize = TypeAllocSize c llvmKeyType;
               valueSize = TypeAllocSize c llvmValueType;
               llvmKeySize = ConstInt (IntType 8) keySize;
               llvmValueSize = ConstInt (IntType 8) valueSize;
               sizeHint = ConstInt (uintptrType c) 8;
               (converted, c1) =
                 (case Reserve expr of
                    None \<Rightarrow> (Inr sizeHint, c)
                  | Some reserve \<Rightarrow>
                      (let sizeHint = getValue frame reserve
                       in parseConvert (vType reserve) (Basic KUintptr) sizeHint (mmPos expr) c))
           in case converted of
                Inl err \<Rightarrow> (Returns (None, Some err), c1)
              | Inr sizeHint \<Rightarrow>
                  (let (hashmap, c2) =
                         createRuntimeCall ''hashmapMake'' [llvmKeySize, llvmValueSize, sizeHint] [] c1
                   in (Returns (Some hashmap, None), c2)))
      | _ \<Rightarrow> (Panics, c))"

text \<open>
  The test \<^verbatim>\<open>t, ok := keyType.(*types.Basic); ok && t.Info()&types.IsString != 0\<close> that
  opens the branch chain of lookup, update and delete (lines 46, 84, 103).
\<close>

fun basicIsString :: "gotype \<Rightarrow> bool" where
  "basicIsString (Basic t) = (Info t AND IsString \<noteq> 0)"
| "basicIsString keyType = False"

text \<open>
  \<^verbatim>\<open>emitMapLookup\<close> (map.go, lines 36-78). The branch chain yields the found flag of the
  runtime call, or the error of the early return at line 62.
\<close>

definition emitMapLookup ::
  "Compiler \<Rightarrow> gotype \<Rightarrow> gotype \<Rightarrow> llvm_value \<Rightarrow> llvm_value \<Rightarrow> bool \<Rightarrow> Pos \<Rightarrow>
   (llvm_value option \<times> error option) \<times> Compiler" where
  "emitMapLookup c keyType valueType m key commaOk pos =
     (let llvmValueType = getLLVMType c valueType;
          ((mapValueAlloca, mapValuePtr, mapValueSize), c1) =
             createTemporaryAlloca llvmValueType ''hashmap.value'' c;
          (branch, c2) =
             (if basicIsString keyType then
                (let params = [m, key, mapValuePtr];
                     (commaOkValue, c') = createRuntimeCall ''hashmapStringGet'' params [] c1
                 in (Inr commaOkValue, c'))
              else if hashmapIsBinaryKey keyType then
                (let ((mapKeyAlloca, mapKeyPtr, mapKeySize), c') =
                        createTemporaryAlloca (TypeOf key) ''hashmap.key'' c1;
                     c' = CreateStore key mapKeyAlloca c';
                     params = [m, mapKeyPtr, mapValuePtr];
                     (commaOkValue, c') = createRuntimeCall ''hashmapBinaryGet'' params [] c';
                     c' = emitLifetimeEnd mapKeyPtr mapKeySize c'
                 in (Inr commaOkValue, c'))
              else (Inl (makeError pos (UnsupportedMapKey keyType)), c1))
      in case branch of
           Inl err \<Rightarrow> ((None, Some err), c2)
         | Inr commaOkValue \<Rightarrow>
             (let (mapValue, c3) = CreateLoad mapValueAlloca [] c2;
                  c4 = emitLifetimeEnd mapValuePtr mapValueSize c3
              in if commaOk then
                   (let tuple = Undef (StructType [llvmValueType, IntType 1]);
                        (tuple, c5) = CreateInsertValue tuple mapValue 0 [] c4;
                        (tuple, c6) = CreateInsertValue tuple commaOkValue 1 [] c5
                    in ((Some tuple, None), c6))
                 else ((Some mapValue, None), c4)))"

text \<open>\<^verbatim>\<open>emitMapUpdate\<close> (map.go, lines 80-99).\<close>

definition emitMapUpdate ::
  "Compiler \<Rightarrow> gotype \<Rightarrow> llvm_value \<Rightarrow> llvm_value \<Rightarrow> llvm_value \<Rightarrow> Pos \<Rightarrow> Compiler" where
  "emitMapUpdate c keyType m key val pos =
     (let ((valueAlloca, valuePtr, valueSize), c1) =
             createTemporaryAlloca (TypeOf val) ''hashmap.value'' c;
          c2 = CreateStore val valueAlloca c1;
          keyType = Underlying keyType;
          c3 =
             (if basicIsString keyType then
                (let params = [m, key, valuePtr]
                 in snd (createRuntimeCall ''hashmapStringSet'' params [] c2))
              else if hashmapIsBinaryKey keyType then
                (let ((keyAlloca, keyPtr, keySize), c') =
                        createTemporaryAlloca (TypeOf key) ''hashmap.key'' c2;
                     c' = CreateStore key keyAlloca c';
                     params = [m, keyPtr, valuePtr];
                     c' = snd (createRuntimeCall ''hashmapBinarySet'' params [] c')
                 in emitLifetimeEnd keyPtr keySize c')
              else addError pos (UnsupportedMapKey keyType) c2)
      in emitLifetimeEnd valuePtr valueSize c3)"

text \<open>\<^verbatim>\<open>emitMapDelete\<close> (map.go, lines 101-118); \<open>None\<close> is the \<^verbatim>\<open>nil\<close> error.\<close>

definition emitMapDelete ::
  "Compiler \<Rightarrow> gotype \<Rightarrow> llvm_value \<Rightarrow> llvm_value \<Rightarrow> Pos \<Rightarrow> error option \<times> Compiler" where
  "emitMapDelete c keyType m key pos =
     (let keyType = Underlying keyType
      in if basicIsString keyType then
           (let params = [m, key];
                c' = snd (createRuntimeCall ''hashmapStringDelete'' params [] c)
            in (None, c'))
         else if hashmapIsBinaryKey keyType then
           (let ((keyAlloca, keyPtr, keySize), c') =
                   createTemporaryAlloca (TypeOf key) ''hashmap.key'' c;
                c' = CreateStore key keyAlloca c';
                params = [m, keyPtr];
                c' = snd (createRuntimeCall ''hashmapBinaryDelete'' params [] c');
                c' = emitLifetimeEnd keyPtr keySize c'
            in (None, c'))
         else (Some (makeError pos (UnsupportedMapKey keyType)), c))"

section \<open>Reading the lowering's output\<close>

text \<open>
  The three verdicts of the spec's key classifier. In the source the verdict is the branch
  taken in the chain "basic string, else binary key, else error" that lookup (lines 46-63),
  update (84-97) and delete (103-117) share; \<open>classify\<close> is that chain with the branch
  bodies replaced by the verdict. Lookup runs the chain on the key type as it is given,
  update and delete on its underlying type.
\<close>

datatype KeyClass = Unsupported | StringKey | BinaryKey

definition classify :: "gotype \<Rightarrow> KeyClass" where
  "classify keyType =
     (if basicIsString keyType then StringKey
      else if hashmapIsBinaryKey keyType then BinaryKey
      else Unsupported)"

text \<open>The instructions an operation added to the builder, and the runtime calls among them.\<close>

definition emitted :: "Compiler \<Rightarrow> Compiler \<Rightarrow> instr list" where
  "emitted c c' = drop (length (builder c)) (builder c')"

fun runtimeCalls :: "instr list \<Rightarrow> string list" where
  "runtimeCalls [] = []"
| "runtimeCalls (RuntimeCall fn args name # is) = fn # runtimeCalls is"
| "runtimeCalls (i # is) = runtimeCalls is"

text \<open>
  The staged buffers of a piece of code that it does not release: those whose lifetime
  starts and is not ended further on.
\<close>

fun unreleased :: "instr list \<Rightarrow> llvm_value list" where
  "unreleased [] = []"
| "unreleased (LifetimeStart sz ptr # is) =
     (if LifetimeEnd ptr sz \<in> set is then unreleased is else ptr # unreleased is)"
| "unreleased (i # is) = unreleased is"

text \<open>
  Whether a returned \<^verbatim>\<open>llvm.Value\<close> is a value of a given LLVM type; the zero
  \<^verbatim>\<open>llvm.Value{}\<close> is a value of no type.
\<close>

fun hasType :: "llvm_value option \<Rightarrow> llvm_type \<Rightarrow> bool" where
  "hasType None t = False"
| "hasType (Some v) t = (TypeOf v = t)"

section \<open>Running the emitted code\<close>


record hashmap =
  hmValueSize :: nat
  hmEntries :: "uint8 list \<rightharpoonup> uint8 list"












section \<open>FNV-1a as the spec words it\<close>

text \<open>
  The spec (4.2) describes the content hash in words: the hash of the empty sequence is the
  offset basis, and the hash of a sequence that ends in the byte \<open>b\<close> is the hash of what
  precedes \<open>b\<close>, XORed with \<open>b\<close> and then multiplied by the prime, in 32 bits. \<open>fnv1a\<close>
  follows these words (\<open>fnv1aRev\<close> takes the bytes last to first); it is the
  specification that \<open>hashmapHash\<close> is compared with.
\<close>

definition fnvOffsetBasis :: uint32 where
  "fnvOffsetBasis = 2166136261"

definition fnvPrime :: uint32 where
  "fnvPrime = 16777619"

fun fnv1aRev :: "uint8 list \<Rightarrow> uint32" where
  "fnv1aRev [] = fnvOffsetBasis"
| "fnv1aRev (b # before) = (fnv1aRev before XOR ucast b) * fnvPrime"

definition fnv1a :: "uint8 list \<Rightarrow> uint32" where
  "fnv1a bytes = fnv1aRev (rev bytes)"

section \<open>A concrete target for the examples\<close>

text \<open>
  The theorems below hold for every compiler state. Where a statement is evaluated at a
  concrete input, this is the state used: a 32-bit target with an empty builder and no
  diagnostics. \<open>sampleParseConvert\<close> stands in for \<^verbatim>\<open>parseConvert\<close> there: it extends
  or truncates an integer to the requested type and reports an error for a source type
  that is not an integer.
\<close>

fun sampleLLVMType :: "gotype \<Rightarrow> llvm_type" where
  "sampleLLVMType (Basic KBool) = IntType 1"
| "sampleLLVMType (Basic KInt8) = IntType 8"
| "sampleLLVMType (Basic KUint8) = IntType 8"
| "sampleLLVMType (Basic KInt16) = IntType 16"
| "sampleLLVMType (Basic KUint16) = IntType 16"
| "sampleLLVMType (Basic KInt64) = IntType 64"
| "sampleLLVMType (Basic KUint64) = IntType 64"
| "sampleLLVMType (Basic KFloat32) = NamedType ''float''"
| "sampleLLVMType (Basic KFloat64) = NamedType ''double''"
| "sampleLLVMType (Basic KString) = NamedType ''runtime._string''"
| "sampleLLVMType (Basic k) = IntType 32"
| "sampleLLVMType (Pointer t) = PointerType (IntType 8)"
| "sampleLLVMType (Named n u) = sampleLLVMType u"
| "sampleLLVMType t = NamedType ''other''"

fun sampleAllocSize :: "llvm_type \<Rightarrow> nat" where
  "sampleAllocSize (IntType w) = (w + 7) div 8"
| "sampleAllocSize (PointerType t) = 4"
| "sampleAllocSize t = 8"

definition sampleCompiler :: Compiler where
  "sampleCompiler =
     \<lparr>uintptrType = IntType 32, getLLVMType = sampleLLVMType, TypeAllocSize = sampleAllocSize,
      builder = [], diagnostics = []\<rparr>"

definition sampleGetValue :: "unit \<Rightarrow> ssa_Value \<Rightarrow> llvm_value" where
  "sampleGetValue frame v = Param 0 (sampleLLVMType (vType v))"

definition sampleParseConvert ::
  "gotype \<Rightarrow> gotype \<Rightarrow> llvm_value \<Rightarrow> Pos \<Rightarrow> Compiler \<Rightarrow> (error + llvm_value) \<times> Compiler" where
  "sampleParseConvert typeFrom typeTo v pos c =
     (case Underlying typeFrom of
        Basic k \<Rightarrow>
          if Info k AND IsInteger \<noteq> 0 then
            (let (r, c') = emit (Convert ''intcast'' v (getLLVMType c typeTo)) (getLLVMType c typeTo) c
             in (Inr r, c'))
          else (Inl (makeError pos (Message ''todo: convert: basic non-integer type'')), c)
      | _ \<Rightarrow> (Inl (makeError pos (Message ''todo: convert'')), c))"


section \<open>Hash functions: properties\<close>

lemma hashLoop_snoc: "hashLoop r (bs @ [b]) = (hashLoop r bs XOR ucast b) * 16777619"
  by (induction bs arbitrary: r) simp_all

lemma hashmapHash_snoc:
  "hashmapHash (bs @ [b]) = (hashmapHash bs XOR ucast b) * 16777619"
  by (simp add: hashmapHash_def hashLoop_snoc)

lemma hashmapHash_fnv1aRev: "hashmapHash (rev bs) = fnv1aRev bs"
proof (induction bs)
  case Nil
  show ?case by (simp add: hashmapHash_def fnvOffsetBasis_def)
next
  case (Cons b bs)
  then show ?case by (simp add: hashmapHash_snoc fnvPrime_def)
qed

text \<open>
  C6. \<open>hashmapHash\<close> is FNV-1a: it agrees with the specification \<open>fnv1a\<close> on every byte
  sequence; the empty sequence hashes to the offset basis 2166136261; appending a byte XORs
  it into the hash so far and then multiplies by the prime 16777619, the product taken
  modulo \<open>2 ^ 32\<close>; nothing is applied after the last byte. Being a function of the byte
  sequence alone, it is deterministic.
\<close>

theorem hashmapHash_is_fnv1a:
  "hashmapHash data = fnv1a data
   \<and> hashmapHash [] = 2166136261
   \<and> hashmapHash (data @ [b]) = (hashmapHash data XOR ucast b) * 16777619
   \<and> unat (hashmapHash (data @ [b])) = (unat (hashmapHash data XOR ucast b) * 16777619) mod 2 ^ 32"
proof -
  have "hashmapHash data = fnv1a data"
    using hashmapHash_fnv1aRev [of "rev data"] by (simp add: fnv1a_def)
  moreover have "hashmapHash [] = 2166136261"
    by (simp add: hashmapHash_def)
  moreover have "unat (hashmapHash (data @ [b])) = (unat (hashmapHash data XOR ucast b) * 16777619) mod 2 ^ 32"
    by (simp add: hashmapHash_snoc unat_word_ariths)
  ultimately show ?thesis
    by (simp add: hashmapHash_snoc)
qed

lemma ucast_top_byte_zero:
  "((ucast (drop_bit 24 (h :: uint32)) :: uint8) = 0) = (drop_bit 24 h = 0)"
proof
  assume top: "(ucast (drop_bit 24 h) :: uint8) = 0"
  show "drop_bit 24 h = 0"
  proof (rule bit_eqI)
    fix n
    have "bit (ucast (drop_bit 24 h) :: uint8) n = bit (0 :: uint8) n"
      using top by simp
    then have low: "n < 8 \<Longrightarrow> \<not> bit h (24 + n)"
      by (simp add: bit_simps)
    have high: "\<not> n < 8 \<Longrightarrow> \<not> bit h (24 + n)"
      by (auto dest: bit_imp_le_length)
    from low high show "bit (drop_bit 24 h) n = bit (0 :: uint32) n"
      by (auto simp: bit_simps)
  qed
next
  assume "drop_bit 24 h = 0"
  then show "(ucast (drop_bit 24 h) :: uint8) = 0" by simp
qed

text \<open>
  C5. For every 32-bit \<open>h\<close>, \<open>hashmapTopHash h\<close> is not 0: it is 1 when the most
  significant 8 bits of \<open>h\<close> are 0, and otherwise \<open>h >> 24\<close> as an 8-bit value.
\<close>

theorem hashmapTopHash_never_zero:
  "hashmapTopHash h \<noteq> 0
   \<and> hashmapTopHash h = (if drop_bit 24 h = 0 then 1 else ucast (drop_bit 24 h))"
  unfolding hashmapTopHash_def Let_def
  by (simp add: word_less_1 ucast_top_byte_zero)

section \<open>What each lowering procedure returns and emits\<close>

text \<open>
  Each procedure, branch by branch: its result and the instructions it appends to the
  builder, written out. \<open>length (builder c)\<close> is the number of the first new register.
\<close>

lemma createTemporaryAlloca_eq:
  "createTemporaryAlloca t name c =
     ((Reg (length (builder c)) (PointerType t),
       Reg (Suc (length (builder c))) i8ptrType,
       ConstInt (IntType 64) (TypeAllocSize c t)),
      c\<lparr>builder := builder c @
         [Alloca t name,
          BitCast (Reg (length (builder c)) (PointerType t)) i8ptrType (name @ ''.bitcast''),
          LifetimeStart (ConstInt (IntType 64) (TypeAllocSize c t))
            (Reg (Suc (length (builder c))) i8ptrType)]\<rparr>)"
  by (simp add: createTemporaryAlloca_def emit_def Let_def)

lemma emitMapLookup_unsupported:
  assumes "\<not> basicIsString keyType" and "\<not> hashmapIsBinaryKey keyType"
  shows "emitMapLookup c keyType valueType m key commaOk pos =
     ((None, Some (Error pos (UnsupportedMapKey keyType))),
      c\<lparr>builder := builder c @
         [Alloca (getLLVMType c valueType) ''hashmap.value'',
          BitCast (Reg (length (builder c)) (PointerType (getLLVMType c valueType))) i8ptrType
            ''hashmap.value.bitcast'',
          LifetimeStart (ConstInt (IntType 64) (TypeAllocSize c (getLLVMType c valueType)))
            (Reg (Suc (length (builder c))) i8ptrType)]\<rparr>)"
  using assms
  by (simp add: emitMapLookup_def createTemporaryAlloca_eq makeError_def Let_def)

lemma emitMapLookup_string:
  assumes "basicIsString keyType"
  shows "emitMapLookup c keyType valueType m key commaOk pos =
     (let n = length (builder c);
          T = getLLVMType c valueType;
          common =
            [Alloca T ''hashmap.value'',
             BitCast (Reg n (PointerType T)) i8ptrType ''hashmap.value.bitcast'',
             LifetimeStart (ConstInt (IntType 64) (TypeAllocSize c T)) (Reg (n + 1) i8ptrType),
             RuntimeCall ''hashmapStringGet'' [m, key, Reg (n + 1) i8ptrType] [],
             Load (Reg n (PointerType T)) [],
             LifetimeEnd (Reg (n + 1) i8ptrType) (ConstInt (IntType 64) (TypeAllocSize c T))]
      in if commaOk then
           ((Some (Reg (n + 7) (StructType [T, IntType 1])), None),
            c\<lparr>builder := builder c @ common @
               [InsertValue (Undef (StructType [T, IntType 1])) (Reg (n + 4) T) 0 [],
                InsertValue (Reg (n + 6) (StructType [T, IntType 1])) (Reg (n + 3) (IntType 1)) 1 []]\<rparr>)
         else ((Some (Reg (n + 4) T), None), c\<lparr>builder := builder c @ common\<rparr>))"
  using assms
  by (simp add: emitMapLookup_def createTemporaryAlloca_eq createRuntimeCall_def emit_def
      CreateLoad_def emitLifetimeEnd_def CreateInsertValue_def runtimeResultType_def Let_def)

lemma emitMapLookup_binary:
  assumes "\<not> basicIsString keyType" and "hashmapIsBinaryKey keyType"
  shows "emitMapLookup c keyType valueType m key commaOk pos =
     (let n = length (builder c);
          T = getLLVMType c valueType;
          K = TypeOf key;
          common =
            [Alloca T ''hashmap.value'',
             BitCast (Reg n (PointerType T)) i8ptrType ''hashmap.value.bitcast'',
             LifetimeStart (ConstInt (IntType 64) (TypeAllocSize c T)) (Reg (n + 1) i8ptrType),
             Alloca K ''hashmap.key'',
             BitCast (Reg (n + 3) (PointerType K)) i8ptrType ''hashmap.key.bitcast'',
             LifetimeStart (ConstInt (IntType 64) (TypeAllocSize c K)) (Reg (n + 4) i8ptrType),
             Store key (Reg (n + 3) (PointerType K)),
             RuntimeCall ''hashmapBinaryGet'' [m, Reg (n + 4) i8ptrType, Reg (n + 1) i8ptrType] [],
             LifetimeEnd (Reg (n + 4) i8ptrType) (ConstInt (IntType 64) (TypeAllocSize c K)),
             Load (Reg n (PointerType T)) [],
             LifetimeEnd (Reg (n + 1) i8ptrType) (ConstInt (IntType 64) (TypeAllocSize c T))]
      in if commaOk then
           ((Some (Reg (n + 12) (StructType [T, IntType 1])), None),
            c\<lparr>builder := builder c @ common @
               [InsertValue (Undef (StructType [T, IntType 1])) (Reg (n + 9) T) 0 [],
                InsertValue (Reg (n + 11) (StructType [T, IntType 1])) (Reg (n + 7) (IntType 1)) 1 []]\<rparr>)
         else ((Some (Reg (n + 9) T), None), c\<lparr>builder := builder c @ common\<rparr>))"
  using assms
  by (simp add: emitMapLookup_def createTemporaryAlloca_eq createRuntimeCall_def emit_def
      CreateLoad_def CreateStore_def emitLifetimeEnd_def CreateInsertValue_def
      runtimeResultType_def Let_def)

lemma emitMapUpdate_string:
  assumes "basicIsString (Underlying keyType)"
  shows "emitMapUpdate c keyType m key val pos =
     (let n = length (builder c); V = TypeOf val
      in c\<lparr>builder := builder c @
           [Alloca V ''hashmap.value'',
            BitCast (Reg n (PointerType V)) i8ptrType ''hashmap.value.bitcast'',
            LifetimeStart (ConstInt (IntType 64) (TypeAllocSize c V)) (Reg (n + 1) i8ptrType),
            Store val (Reg n (PointerType V)),
            RuntimeCall ''hashmapStringSet'' [m, key, Reg (n + 1) i8ptrType] [],
            LifetimeEnd (Reg (n + 1) i8ptrType) (ConstInt (IntType 64) (TypeAllocSize c V))]\<rparr>)"
  using assms
  by (simp add: emitMapUpdate_def createTemporaryAlloca_eq createRuntimeCall_def emit_def
      CreateStore_def emitLifetimeEnd_def Let_def)

lemma emitMapUpdate_binary:
  assumes "\<not> basicIsString (Underlying keyType)" and "hashmapIsBinaryKey (Underlying keyType)"
  shows "emitMapUpdate c keyType m key val pos =
     (let n = length (builder c); V = TypeOf val; K = TypeOf key
      in c\<lparr>builder := builder c @
           [Alloca V ''hashmap.value'',
            BitCast (Reg n (PointerType V)) i8ptrType ''hashmap.value.bitcast'',
            LifetimeStart (ConstInt (IntType 64) (TypeAllocSize c V)) (Reg (n + 1) i8ptrType),
            Store val (Reg n (PointerType V)),
            Alloca K ''hashmap.key'',
            BitCast (Reg (n + 4) (PointerType K)) i8ptrType ''hashmap.key.bitcast'',
            LifetimeStart (ConstInt (IntType 64) (TypeAllocSize c K)) (Reg (n + 5) i8ptrType),
            Store key (Reg (n + 4) (PointerType K)),
            RuntimeCall ''hashmapBinarySet'' [m, Reg (n + 5) i8ptrType, Reg (n + 1) i8ptrType] [],
            LifetimeEnd (Reg (n + 5) i8ptrType) (ConstInt (IntType 64) (TypeAllocSize c K)),
            LifetimeEnd (Reg (n + 1) i8ptrType) (ConstInt (IntType 64) (TypeAllocSize c V))]\<rparr>)"
  using assms
  by (simp add: emitMapUpdate_def createTemporaryAlloca_eq createRuntimeCall_def emit_def
      CreateStore_def emitLifetimeEnd_def Let_def)

lemma emitMapUpdate_unsupported:
  assumes "\<not> basicIsString (Underlying keyType)" and "\<not> hashmapIsBinaryKey (Underlying keyType)"
  shows "emitMapUpdate c keyType m key val pos =
     (let n = length (builder c); V = TypeOf val
      in c\<lparr>builder := builder c @
           [Alloca V ''hashmap.value'',
            BitCast (Reg n (PointerType V)) i8ptrType ''hashmap.value.bitcast'',
            LifetimeStart (ConstInt (IntType 64) (TypeAllocSize c V)) (Reg (n + 1) i8ptrType),
            Store val (Reg n (PointerType V)),
            LifetimeEnd (Reg (n + 1) i8ptrType) (ConstInt (IntType 64) (TypeAllocSize c V))],
          diagnostics := diagnostics c @ [Error pos (UnsupportedMapKey (Underlying keyType))]\<rparr>)"
  using assms
  by (simp add: emitMapUpdate_def createTemporaryAlloca_eq emit_def addError_def makeError_def
      CreateStore_def emitLifetimeEnd_def Let_def)

lemma emitMapDelete_string:
  assumes "basicIsString (Underlying keyType)"
  shows "emitMapDelete c keyType m key pos =
     (None, c\<lparr>builder := builder c @ [RuntimeCall ''hashmapStringDelete'' [m, key] []]\<rparr>)"
  using assms
  by (simp add: emitMapDelete_def createRuntimeCall_def emit_def Let_def)

lemma emitMapDelete_binary:
  assumes "\<not> basicIsString (Underlying keyType)" and "hashmapIsBinaryKey (Underlying keyType)"
  shows "emitMapDelete c keyType m key pos =
     (let n = length (builder c); K = TypeOf key
      in (None, c\<lparr>builder := builder c @
           [Alloca K ''hashmap.key'',
            BitCast (Reg n (PointerType K)) i8ptrType ''hashmap.key.bitcast'',
            LifetimeStart (ConstInt (IntType 64) (TypeAllocSize c K)) (Reg (n + 1) i8ptrType),
            Store key (Reg n (PointerType K)),
            RuntimeCall ''hashmapBinaryDelete'' [m, Reg (n + 1) i8ptrType] [],
            LifetimeEnd (Reg (n + 1) i8ptrType) (ConstInt (IntType 64) (TypeAllocSize c K))]\<rparr>))"
  using assms
  by (simp add: emitMapDelete_def createTemporaryAlloca_eq createRuntimeCall_def emit_def
      CreateStore_def emitLifetimeEnd_def Let_def)

lemma emitMapDelete_unsupported:
  assumes "\<not> basicIsString (Underlying keyType)" and "\<not> hashmapIsBinaryKey (Underlying keyType)"
  shows "emitMapDelete c keyType m key pos =
     (Some (Error pos (UnsupportedMapKey (Underlying keyType))), c)"
  using assms
  by (simp add: emitMapDelete_def makeError_def Let_def)

lemma emitMakeMap_noReserve:
  assumes "Underlying (mmType expr) = MapType keyT elemT" and "Reserve expr = None"
  shows "emitMakeMap getValue parseConvert c frame expr =
     (Returns (Some (Reg (length (builder c)) hashmapType), None),
      c\<lparr>builder := builder c @
         [RuntimeCall ''hashmapMake''
            [ConstInt (IntType 8) (TypeAllocSize c (getLLVMType c (Underlying keyT))),
             ConstInt (IntType 8) (TypeAllocSize c (getLLVMType c (Underlying elemT))),
             ConstInt (uintptrType c) 8] []]\<rparr>)"
  using assms
  by (simp add: emitMakeMap_def createRuntimeCall_def emit_def runtimeResultType_def Let_def)

lemma emitMakeMap_converted:
  assumes "Underlying (mmType expr) = MapType keyT elemT" and "Reserve expr = Some reserve"
    and "parseConvert (vType reserve) (Basic KUintptr) (getValue frame reserve) (mmPos expr) c
           = (Inr v, c1)"
  shows "emitMakeMap getValue parseConvert c frame expr =
     (Returns (Some (Reg (length (builder c1)) hashmapType), None),
      c1\<lparr>builder := builder c1 @
         [RuntimeCall ''hashmapMake''
            [ConstInt (IntType 8) (TypeAllocSize c (getLLVMType c (Underlying keyT))),
             ConstInt (IntType 8) (TypeAllocSize c (getLLVMType c (Underlying elemT))),
             v] []]\<rparr>)"
  using assms
  by (simp add: emitMakeMap_def createRuntimeCall_def emit_def runtimeResultType_def Let_def)

lemma emitMakeMap_convertError:
  assumes "Underlying (mmType expr) = MapType keyT elemT" and "Reserve expr = Some reserve"
    and "parseConvert (vType reserve) (Basic KUintptr) (getValue frame reserve) (mmPos expr) c
           = (Inl err, c1)"
  shows "emitMakeMap getValue parseConvert c frame expr = (Returns (None, Some err), c1)"
  using assms
  by (simp add: emitMakeMap_def Let_def)

lemma emitted_append: "emitted c (c\<lparr>builder := builder c @ code\<rparr>) = code"
  by (simp add: emitted_def)

lemma emitted_append_diag:
  "emitted c (c\<lparr>builder := builder c @ code, diagnostics := d\<rparr>) = code"
  by (simp add: emitted_def)

lemma emitted_same: "emitted c c = []"
  by (simp add: emitted_def)

section \<open>The key classifier\<close>

lemmas flag_defs = IsBoolean_def IsInteger_def IsUnsigned_def IsFloat_def IsComplex_def
  IsString_def IsUntyped_def

lemma structFields_iff:
  "structFields fs = (\<forall>f \<in> set fs. hashmapIsBinaryKey (Underlying (snd f)))"
  by (induction fs) simp_all

lemma binary_not_string: "hashmapIsBinaryKey t \<Longrightarrow> \<not> basicIsString t"
proof (cases t)
  case (Basic k)
  assume "hashmapIsBinaryKey t"
  with Basic show ?thesis by (cases k) (simp_all add: flag_defs)
qed simp_all

lemma classify_BinaryKey_iff: "(classify t = BinaryKey) = hashmapIsBinaryKey t"
  using binary_not_string [of t] by (auto simp: classify_def)

lemma classify_Unsupported_iff:
  "(classify t = Unsupported) = (\<not> basicIsString t \<and> \<not> hashmapIsBinaryKey t)"
  by (simp add: classify_def)

lemma classify_StringKey_iff: "(classify t = StringKey) = basicIsString t"
  by (simp add: classify_def)

lemma classify_strings:
  "classify (Basic KString) = StringKey \<and> classify (Basic KUntypedString) = StringKey"
  by (simp add: classify_def flag_defs)

lemma classify_bool_int:
  "\<forall>k \<in> {KBool, KInt, KInt8, KInt16, KInt32, KInt64, KUint, KUint8, KUint16, KUint32,
          KUint64, KUintptr, KUntypedBool, KUntypedInt, KUntypedRune}.
     classify (Basic k) = BinaryKey"
  by (simp add: classify_def flag_defs)

lemma classify_float:
  "\<forall>k \<in> {KFloat32, KFloat64, KUntypedFloat}. classify (Basic k) = Unsupported"
  by (simp add: classify_def flag_defs)

lemma classify_Pointer: "classify (Pointer t) = BinaryKey"
  by (simp add: classify_def)

lemma classify_Struct:
  "classify (Struct fs) =
     (if \<forall>f \<in> set fs. classify (Underlying (snd f)) = BinaryKey then BinaryKey else Unsupported)"
  unfolding classify_BinaryKey_iff by (simp add: classify_def structFields_iff)

lemma classify_Array:
  "classify (Array n t) = (if classify t = BinaryKey then BinaryKey else Unsupported)"
  unfolding classify_BinaryKey_iff by (simp add: classify_def)

lemma classify_Named:
  "classify (Named name u) = (if classify u = BinaryKey then BinaryKey else Unsupported)"
  unfolding classify_BinaryKey_iff by (simp add: classify_def)

lemma classify_Named_inherits:
  "classify u \<noteq> StringKey \<Longrightarrow> classify (Named name u) = classify u"
  by (cases "classify u") (simp_all add: classify_Named)

lemma classify_others:
  "classify (Interface ms) = Unsupported \<and> classify (Slice t) = Unsupported
   \<and> classify (MapType k v) = Unsupported \<and> classify (Signature ps rs) = Unsupported"
  by (simp add: classify_def)

section \<open>Which runtime entry point an operation selects\<close>

text \<open>
  The runtime calls an operation emits are those of the branch that \<open>classify\<close> names:
  lookup on the key type as given, update and delete on its underlying type.
\<close>

lemma emitMapLookup_calls:
  "runtimeCalls (emitted c (snd (emitMapLookup c keyType valueType m key commaOk pos))) =
     (case classify keyType of
        StringKey \<Rightarrow> [''hashmapStringGet'']
      | BinaryKey \<Rightarrow> [''hashmapBinaryGet'']
      | Unsupported \<Rightarrow> [])"
proof (cases "basicIsString keyType")
  case True
  then show ?thesis
    by (simp add: emitMapLookup_string classify_def Let_def emitted_append)
next
  case False
  show ?thesis
  proof (cases "hashmapIsBinaryKey keyType")
    case True
    with False show ?thesis
      by (simp add: emitMapLookup_binary classify_def Let_def emitted_append)
  next
    case nb: False
    with False show ?thesis
      by (simp add: emitMapLookup_unsupported classify_def emitted_append)
  qed
qed

lemma emitMapUpdate_calls:
  "runtimeCalls (emitted c (emitMapUpdate c keyType m key val pos)) =
     (case classify (Underlying keyType) of
        StringKey \<Rightarrow> [''hashmapStringSet'']
      | BinaryKey \<Rightarrow> [''hashmapBinarySet'']
      | Unsupported \<Rightarrow> [])"
proof (cases "basicIsString (Underlying keyType)")
  case True
  then show ?thesis
    by (simp add: emitMapUpdate_string classify_def Let_def emitted_append)
next
  case False
  show ?thesis
  proof (cases "hashmapIsBinaryKey (Underlying keyType)")
    case True
    with False show ?thesis
      by (simp add: emitMapUpdate_binary classify_def Let_def emitted_append)
  next
    case nb: False
    with False show ?thesis
      by (simp add: emitMapUpdate_unsupported classify_def Let_def emitted_append_diag)
  qed
qed

lemma emitMapDelete_calls:
  "runtimeCalls (emitted c (snd (emitMapDelete c keyType m key pos))) =
     (case classify (Underlying keyType) of
        StringKey \<Rightarrow> [''hashmapStringDelete'']
      | BinaryKey \<Rightarrow> [''hashmapBinaryDelete'']
      | Unsupported \<Rightarrow> [])"
proof (cases "basicIsString (Underlying keyType)")
  case True
  then show ?thesis
    by (simp add: emitMapDelete_string classify_def Let_def emitted_append)
next
  case False
  show ?thesis
  proof (cases "hashmapIsBinaryKey (Underlying keyType)")
    case True
    with False show ?thesis
      by (simp add: emitMapDelete_binary classify_def Let_def emitted_append)
  next
    case nb: False
    with False show ?thesis
      by (simp add: emitMapDelete_unsupported classify_def emitted_same)
  qed
qed

text \<open>
  C1, in the form the code satisfies. \<open>classify\<close> is a total function of the static key
  type (\<open>hashmapIsBinaryKey\<close> terminates on every type, so it never loops), and:
  a primitive string is StringKey; booleans and integers of every width are BinaryKey;
  a pointer is BinaryKey; a struct is BinaryKey if the underlying type of every field is
  BinaryKey and Unsupported otherwise; a fixed-size array is BinaryKey if its element is
  BinaryKey and Unsupported otherwise (an array does not inherit StringKey from its
  element); a named type whose underlying type is not a primitive string has the class of
  its underlying type; interfaces, slices, maps, functions and floating-point types are
  Unsupported. The runtime call that lookup emits for a key type \<open>T\<close> is the one
  \<open>classify T\<close> names.
\<close>

theorem classify_table:
  "classify (Basic KString) = StringKey
   \<and> (\<forall>k \<in> {KBool, KInt, KInt8, KInt16, KInt32, KInt64, KUint, KUint8, KUint16, KUint32,
             KUint64, KUintptr, KUntypedBool, KUntypedInt, KUntypedRune}.
        classify (Basic k) = BinaryKey)
   \<and> classify (Pointer t) = BinaryKey
   \<and> classify (Struct fs) =
       (if \<forall>f \<in> set fs. classify (Underlying (snd f)) = BinaryKey then BinaryKey
        else Unsupported)
   \<and> classify (Array n t) = (if classify t = BinaryKey then BinaryKey else Unsupported)
   \<and> (classify u \<noteq> StringKey \<longrightarrow> classify (Named name u) = classify u)
   \<and> classify (Interface ms) = Unsupported
   \<and> classify (Slice t) = Unsupported
   \<and> classify (MapType kt vt) = Unsupported
   \<and> classify (Signature ps rs) = Unsupported
   \<and> (\<forall>k \<in> {KFloat32, KFloat64, KUntypedFloat}. classify (Basic k) = Unsupported)
   \<and> runtimeCalls (emitted c (snd (emitMapLookup c T valueType m key commaOk pos))) =
       (case classify T of
          StringKey \<Rightarrow> [''hashmapStringGet'']
        | BinaryKey \<Rightarrow> [''hashmapBinaryGet'']
        | Unsupported \<Rightarrow> [])"
  using classify_strings classify_bool_int classify_Pointer [of t] classify_Struct [of fs]
    classify_Array [of n t] classify_Named_inherits [of u name]
    classify_others [of ms t kt vt ps rs] classify_float
    emitMapLookup_calls [of c T valueType m key commaOk pos]
  by blast

text \<open>
  The table at concrete types: the two structs of the spec's scenario C, a named integer
  type, an array of integers.
\<close>

theorem classify_table_witness:
  "classify (Basic KInt32) = BinaryKey
   \<and> classify (Basic KBool) = BinaryKey
   \<and> classify (Basic KFloat64) = Unsupported
   \<and> classify (Struct [(''a'', Basic KInt32), (''b'', Basic KBool)]) = BinaryKey
   \<and> classify (Struct [(''a'', Basic KInt32), (''b'', Basic KString)]) = Unsupported
   \<and> classify (Basic KInt32) \<noteq> StringKey
   \<and> classify (Named ''Celsius'' (Basic KInt32)) = classify (Basic KInt32)
   \<and> classify (Array 4 (Basic KInt32)) = BinaryKey"
  using classify_table [of "Basic KInt32" "[(''a'', Basic KInt32), (''b'', Basic KBool)]" 4
      "Basic KInt32" "''Celsius''"]
    classify_table [of "Basic KInt32" "[(''a'', Basic KInt32), (''b'', Basic KString)]" 4
      "Basic KInt32" "''Celsius''"]
  by simp

text \<open>
  C1 as the spec words it fails at arrays: a primitive string is StringKey, an array of
  four strings is Unsupported, so the array does not have its element's class.
\<close>

theorem array_of_strings_counterexample:
  "classify (Basic KString) = StringKey
   \<and> classify (Array 4 (Basic KString)) = Unsupported
   \<and> classify (Array 4 (Basic KString)) \<noteq> classify (Basic KString)"
  by (simp add: classify_def flag_defs)

text \<open>
  C10. A struct with no fields is BinaryKey, and each of lookup, update and delete accepts
  it: each emits its binary-keyed runtime call and reports no error.
\<close>

theorem empty_struct_is_binary_key:
  "classify (Struct []) = BinaryKey
   \<and> runtimeCalls (emitted c (snd (emitMapLookup c (Struct []) valueType m key commaOk pos)))
       = [''hashmapBinaryGet'']
   \<and> snd (fst (emitMapLookup c (Struct []) valueType m key commaOk pos)) = None
   \<and> runtimeCalls (emitted c (emitMapUpdate c (Struct []) m key val pos)) = [''hashmapBinarySet'']
   \<and> diagnostics (emitMapUpdate c (Struct []) m key val pos) = diagnostics c
   \<and> runtimeCalls (emitted c (snd (emitMapDelete c (Struct []) m key pos)))
       = [''hashmapBinaryDelete'']
   \<and> fst (emitMapDelete c (Struct []) m key pos) = None"
proof -
  have cl: "classify (Struct []) = BinaryKey"
    by (simp add: classify_def)
  have l: "snd (fst (emitMapLookup c (Struct []) valueType m key commaOk pos)) = None"
    by (simp add: emitMapLookup_binary Let_def)
  have u: "diagnostics (emitMapUpdate c (Struct []) m key val pos) = diagnostics c"
    by (simp add: emitMapUpdate_binary Let_def)
  have d: "fst (emitMapDelete c (Struct []) m key pos) = None"
    by (simp add: emitMapDelete_binary Let_def)
  show ?thesis
    using cl l u d
    by (simp add: emitMapLookup_calls emitMapUpdate_calls emitMapDelete_calls)
qed


lemma Underlying_not_named: "\<not> isNamed u \<Longrightarrow> Underlying u = u"
  by (cases u) simp_all

lemma emitMapUpdate_named:
  "\<not> isNamed u \<Longrightarrow>
   runtimeCalls (emitted c (emitMapUpdate c (Named name u) m key val pos)) =
   runtimeCalls (emitted c (emitMapUpdate c u m key val pos))"
  by (simp add: emitMapUpdate_calls Underlying_not_named)

lemma emitMapDelete_named:
  "\<not> isNamed u \<Longrightarrow>
   runtimeCalls (emitted c (snd (emitMapDelete c (Named name u) m key pos))) =
   runtimeCalls (emitted c (snd (emitMapDelete c u m key pos)))"
  by (simp add: emitMapDelete_calls Underlying_not_named)

lemma emitMapLookup_named:
  "\<not> basicIsString u \<Longrightarrow>
   runtimeCalls (emitted c (snd (emitMapLookup c (Named name u) valueType m key commaOk pos))) =
   runtimeCalls (emitted c (snd (emitMapLookup c u valueType m key commaOk pos)))"
  by (simp add: emitMapLookup_calls classify_Named_inherits classify_StringKey_iff)

text \<open>
  C2, at a named type \<open>name\<close> whose underlying type is \<^verbatim>\<open>string\<close>. Update and delete unwrap
  the type first and take the string-keyed path, as lookup does for \<^verbatim>\<open>string\<close> itself;
  lookup on the named type tests the type as given, finds neither a basic string nor a
  binary key, emits no runtime call and returns the unsupported-key error.
\<close>

theorem named_string_key_dispatch:
  "runtimeCalls (emitted c (snd (emitMapLookup c (Basic KString) valueType m key commaOk pos)))
     = [''hashmapStringGet'']
   \<and> runtimeCalls
       (emitted c (snd (emitMapLookup c (Named name (Basic KString)) valueType m key commaOk pos)))
     = []
   \<and> fst (emitMapLookup c (Named name (Basic KString)) valueType m key commaOk pos)
     = (None, Some (Error pos (UnsupportedMapKey (Named name (Basic KString)))))
   \<and> runtimeCalls (emitted c (emitMapUpdate c (Named name (Basic KString)) m key val pos))
     = [''hashmapStringSet'']
   \<and> runtimeCalls (emitted c (snd (emitMapDelete c (Named name (Basic KString)) m key pos)))
     = [''hashmapStringDelete'']"
proof -
  have s: "classify (Basic KString) = StringKey"
    by (simp add: classify_def flag_defs)
  have n: "classify (Named name (Basic KString)) = Unsupported"
    by (simp add: classify_def flag_defs)
  have r: "fst (emitMapLookup c (Named name (Basic KString)) valueType m key commaOk pos)
     = (None, Some (Error pos (UnsupportedMapKey (Named name (Basic KString)))))"
    by (simp add: emitMapLookup_unsupported flag_defs)
  show ?thesis
    using s n r
    by (simp add: emitMapLookup_calls emitMapUpdate_calls emitMapDelete_calls)
qed


section \<open>Staged buffers and their release\<close>

lemma emitMapUpdate_releases: "unreleased (emitted c (emitMapUpdate c keyType m key val pos)) = []"
proof (cases "basicIsString (Underlying keyType)")
  case True
  then show ?thesis
    by (simp add: emitMapUpdate_string Let_def emitted_append)
next
  case False
  show ?thesis
  proof (cases "hashmapIsBinaryKey (Underlying keyType)")
    case True
    with False show ?thesis
      by (simp add: emitMapUpdate_binary Let_def emitted_append)
  next
    case nb: False
    with False show ?thesis
      by (simp add: emitMapUpdate_unsupported Let_def emitted_append_diag)
  qed
qed

lemma emitMapDelete_releases:
  "unreleased (emitted c (snd (emitMapDelete c keyType m key pos))) = []"
proof (cases "basicIsString (Underlying keyType)")
  case True
  then show ?thesis
    by (simp add: emitMapDelete_string Let_def emitted_append)
next
  case False
  show ?thesis
  proof (cases "hashmapIsBinaryKey (Underlying keyType)")
    case True
    with False show ?thesis
      by (simp add: emitMapDelete_binary Let_def emitted_append)
  next
    case nb: False
    with False show ?thesis
      by (simp add: emitMapDelete_unsupported emitted_same)
  qed
qed

lemma emitMapLookup_releases:
  assumes "classify keyType \<noteq> Unsupported"
  shows "unreleased (emitted c (snd (emitMapLookup c keyType valueType m key commaOk pos))) = []"
proof (cases "basicIsString keyType")
  case True
  then show ?thesis
    by (simp add: emitMapLookup_string Let_def emitted_append)
next
  case False
  with assms have "hashmapIsBinaryKey keyType"
    by (simp add: classify_def split: if_splits)
  with False show ?thesis
    by (simp add: emitMapLookup_binary Let_def emitted_append)
qed

lemma emitMapLookup_unsupported_unreleased:
  assumes "classify keyType = Unsupported"
  shows "unreleased (emitted c (snd (emitMapLookup c keyType valueType m key commaOk pos))) =
     [Reg (Suc (length (builder c))) i8ptrType]"
  using assms
  by (simp add: classify_Unsupported_iff emitMapLookup_unsupported emitted_append)

text \<open>
  C3, at the key type \<^verbatim>\<open>float64\<close>, which no operation supports. Lookup stages its result
  buffer, returns the error, and emits nothing after the start of the buffer's lifetime: the
  buffer is left unreleased. Update, for the same key type, emits no runtime call, records
  the error and still releases its value buffer.
\<close>

theorem lookup_unsupported_leaves_buffer_staged:
  "emitted c (snd (emitMapLookup c (Basic KFloat64) valueType m key commaOk pos)) =
     [Alloca (getLLVMType c valueType) ''hashmap.value'',
      BitCast (Reg (length (builder c)) (PointerType (getLLVMType c valueType))) i8ptrType
        ''hashmap.value.bitcast'',
      LifetimeStart (ConstInt (IntType 64) (TypeAllocSize c (getLLVMType c valueType)))
        (Reg (Suc (length (builder c))) i8ptrType)]
   \<and> unreleased (emitted c (snd (emitMapLookup c (Basic KFloat64) valueType m key commaOk pos)))
     = [Reg (Suc (length (builder c))) i8ptrType]
   \<and> snd (fst (emitMapLookup c (Basic KFloat64) valueType m key commaOk pos))
     = Some (Error pos (UnsupportedMapKey (Basic KFloat64)))
   \<and> unreleased (emitted c (emitMapUpdate c (Basic KFloat64) m key val pos)) = []
   \<and> runtimeCalls (emitted c (emitMapUpdate c (Basic KFloat64) m key val pos)) = []
   \<and> diagnostics (emitMapUpdate c (Basic KFloat64) m key val pos)
     = diagnostics c @ [Error pos (UnsupportedMapKey (Basic KFloat64))]"
proof -
  have ns: "\<not> basicIsString (Basic KFloat64)" and nb: "\<not> hashmapIsBinaryKey (Basic KFloat64)"
    by (simp_all add: flag_defs)
  have cl: "classify (Underlying (Basic KFloat64)) = Unsupported"
    by (simp add: classify_def flag_defs)
  have d: "diagnostics (emitMapUpdate c (Basic KFloat64) m key val pos)
     = diagnostics c @ [Error pos (UnsupportedMapKey (Basic KFloat64))]"
    by (simp add: emitMapUpdate_unsupported flag_defs Let_def)
  show ?thesis
    using d cl
    by (simp add: emitMapLookup_unsupported [OF ns nb] emitted_append emitMapUpdate_releases
        emitMapUpdate_calls)
qed

section \<open>The result of a lookup\<close>

text \<open>
  C8, in the form the code satisfies. When the key type is unsupported, lookup returns the
  error together with the zero \<^verbatim>\<open>llvm.Value{}\<close>, whether or not the found flag was
  requested: what it returns is a value of no LLVM type.
\<close>

theorem lookup_unsupported_returns_no_value:
  assumes "classify keyType = Unsupported"
  shows "fst (emitMapLookup c keyType valueType m key commaOk pos) =
           (None, Some (Error pos (UnsupportedMapKey keyType)))
         \<and> \<not> hasType (fst (fst (emitMapLookup c keyType valueType m key commaOk pos))) t"
  using assms
  by (simp add: classify_Unsupported_iff emitMapLookup_unsupported)

text \<open>
  The same at a \<^verbatim>\<open>float64\<close> key with the found flag requested.
\<close>

theorem lookup_unsupported_returns_no_value_witness:
  "classify (Basic KFloat64) = Unsupported
   \<and> fst (emitMapLookup sampleCompiler (Basic KFloat64) (Basic KInt32)
            (Param 0 hashmapType) (Param 1 (NamedType ''double'')) True 7)
       = (None, Some (Error 7 (UnsupportedMapKey (Basic KFloat64))))"
proof -
  have h: "classify (Basic KFloat64) = Unsupported"
    by (simp add: classify_def flag_defs)
  from h lookup_unsupported_returns_no_value [OF h] show ?thesis
    by simp
qed

text \<open>
  C8 as the spec words it fails: a lookup with a \<^verbatim>\<open>float64\<close> key in a map of
  \<^verbatim>\<open>int32\<close> returns no value; what it returns is neither of the map's value type nor of
  the (value, flag) pair type.
\<close>

theorem lookup_placeholder_counterexample:
  "fst (fst (emitMapLookup sampleCompiler (Basic KFloat64) (Basic KInt32)
               (Param 0 hashmapType) (Param 1 (NamedType ''double'')) False 7)) = None
   \<and> \<not> hasType
         (fst (fst (emitMapLookup sampleCompiler (Basic KFloat64) (Basic KInt32)
                      (Param 0 hashmapType) (Param 1 (NamedType ''double'')) False 7)))
         (getLLVMType sampleCompiler (Basic KInt32))
   \<and> \<not> hasType
         (fst (fst (emitMapLookup sampleCompiler (Basic KFloat64) (Basic KInt32)
                      (Param 0 hashmapType) (Param 1 (NamedType ''double'')) True 7)))
         (StructType [getLLVMType sampleCompiler (Basic KInt32), IntType 1])"
  by (simp add: emitMapLookup_unsupported flag_defs)

section \<open>The result of a lookup, when the code runs\<close>

















section \<open>Creating a map\<close>




text \<open>
  C9. For an expression of map type: with no size hint, the one instruction emitted is the
  call of the create entry point whose third argument is the constant 8 of the
  \<^verbatim>\<open>uintptr\<close> type; with a size hint, the hint is converted with \<^verbatim>\<open>uintptr\<close> as the
  target type, and the call, emitted after the conversion, takes the converted value as
  its third argument.
\<close>

theorem emitMakeMap_sizeHint:
  assumes "Underlying (mmType expr) = MapType keyT elemT"
  shows "(Reserve expr = None \<longrightarrow>
            emitted c (snd (emitMakeMap getValue parseConvert c frame expr)) =
              [RuntimeCall ''hashmapMake''
                 [ConstInt (IntType 8) (TypeAllocSize c (getLLVMType c (Underlying keyT))),
                  ConstInt (IntType 8) (TypeAllocSize c (getLLVMType c (Underlying elemT))),
                  ConstInt (uintptrType c) 8] []])
       \<and> (\<forall>reserve v c1.
            Reserve expr = Some reserve \<and>
            parseConvert (vType reserve) (Basic KUintptr) (getValue frame reserve) (mmPos expr) c
              = (Inr v, c1) \<longrightarrow>
            emitted c1 (snd (emitMakeMap getValue parseConvert c frame expr)) =
              [RuntimeCall ''hashmapMake''
                 [ConstInt (IntType 8) (TypeAllocSize c (getLLVMType c (Underlying keyT))),
                  ConstInt (IntType 8) (TypeAllocSize c (getLLVMType c (Underlying elemT))),
                  v] []])"
  using assms
  by (auto simp: emitMakeMap_noReserve emitMakeMap_converted emitted_append)

text \<open>
  The spec's scenario A, a map of byte-sized keys and values without a hint, and the same
  map with a 16-bit hint.
\<close>

theorem emitMakeMap_sizeHint_witness:
  "builder (snd (emitMakeMap sampleGetValue sampleParseConvert sampleCompiler ()
      \<lparr>mmType = MapType (Basic KUint8) (Basic KUint8), Reserve = None, mmPos = 3\<rparr>))
     = [RuntimeCall ''hashmapMake''
          [ConstInt (IntType 8) 1, ConstInt (IntType 8) 1, ConstInt (IntType 32) 8] []]
   \<and> builder (snd (emitMakeMap sampleGetValue sampleParseConvert sampleCompiler ()
      \<lparr>mmType = MapType (Basic KUint8) (Basic KUint8),
       Reserve = Some \<lparr>vName = ''n'', vType = Basic KInt16\<rparr>, mmPos = 3\<rparr>))
     = [Convert ''intcast'' (Param 0 (IntType 16)) (IntType 32),
        RuntimeCall ''hashmapMake''
          [ConstInt (IntType 8) 1, ConstInt (IntType 8) 1, Reg 0 (IntType 32)] []]"
proof -
  let ?e1 = "\<lparr>mmType = MapType (Basic KUint8) (Basic KUint8), Reserve = None, mmPos = 3\<rparr>"
  let ?e2 = "\<lparr>mmType = MapType (Basic KUint8) (Basic KUint8),
             Reserve = Some \<lparr>vName = ''n'', vType = Basic KInt16\<rparr>, mmPos = 3\<rparr>"
  have h1: "Underlying (mmType ?e1) = MapType (Basic KUint8) (Basic KUint8)" by simp
  have h2: "Underlying (mmType ?e2) = MapType (Basic KUint8) (Basic KUint8)" by simp
  from
    emitMakeMap_sizeHint [OF h1, where getValue = sampleGetValue and parseConvert = sampleParseConvert
        and c = sampleCompiler and frame = "()"]
    emitMakeMap_sizeHint [OF h2, where getValue = sampleGetValue and parseConvert = sampleParseConvert
        and c = sampleCompiler and frame = "()"]
  show ?thesis
    by (simp add: emitMakeMap_def createRuntimeCall_def sampleParseConvert_def sampleGetValue_def
        sampleCompiler_def emit_def flag_defs Let_def)
qed

end
